theory Spec2Isabelle
  imports Main "HOL-Library.Word"
begin

section \<open>Data model\<close>

text \<open>
  The client (\<^verbatim>\<open>src/client/amoebit_init.ts\<close>) builds one transaction of five
  instructions and hands it to the network. Everything it calls that is not among the
  source files at hand (the web3 and token libraries, the RPC node, the \<^verbatim>\<open>utils\<close>
  module) is taken as a parameter, collected in the record \<open>services\<close> below.
  Addresses are byte strings; amounts are natural numbers (lamport amounts and byte
  sizes are non-negative integers well inside the exact range of a JavaScript number).
\<close>

type_synonym Buffer = "8 word list"

datatype PublicKey = PublicKey (toBuffer: Buffer)

record Keypair =
  publicKey :: PublicKey
  secretKey :: Buffer

text \<open>One entry of an instruction's account list: \<^verbatim>\<open>{pubkey, isSigner, isWritable}\<close>.\<close>

record AccountMeta =
  pubkey :: PublicKey
  isSigner :: bool
  isWritable :: bool

text \<open>
  An instruction is the value returned by one of the library's instruction builders. The
  encoders themselves belong to the libraries, so an instruction is kept as the builder
  that was called together with the arguments it was called with, in the order of the
  builder's parameters:
  \<^item> \<^verbatim>\<open>SystemProgram.createAccount({fromPubkey, newAccountPubkey, lamports, space, programId})\<close>;
  \<^item> \<^verbatim>\<open>Token.createAssociatedTokenAccountInstruction(associatedProgramId, programId, mint, associatedAccount, owner, payer)\<close>;
  \<^item> \<^verbatim>\<open>Token.createInitMintInstruction(programId, mint, decimals, mintAuthority, freezeAuthority)\<close>,
    where \<^verbatim>\<open>null\<close> for the freeze authority is \<open>None\<close>;
  \<^item> \<^verbatim>\<open>Token.createMintToInstruction(programId, mint, dest, authority, multiSigners, amount)\<close>;
  \<^item> \<^verbatim>\<open>new TransactionInstruction({keys, programId, data})\<close>.
\<close>

datatype Instruction =
    SystemProgram_createAccount PublicKey PublicKey nat nat PublicKey
  | Token_createAssociatedTokenAccountInstruction
      PublicKey PublicKey PublicKey PublicKey PublicKey PublicKey
  | Token_createInitMintInstruction PublicKey PublicKey nat PublicKey "PublicKey option"
  | Token_createMintToInstruction PublicKey PublicKey PublicKey PublicKey "Keypair list" nat
  | TransactionInstruction "AccountMeta list" PublicKey Buffer

record Transaction =
  instructions :: "Instruction list"
  recentBlockhash :: "string option"

text \<open>The options object of \<^verbatim>\<open>sendAndConfirmTransaction\<close>; an absent field is \<open>None\<close>.\<close>

record ConfirmOptions =
  skipPreflight :: "bool option"
  commitment :: "string option"
  preflightCommitment :: "string option"

record Connection =
  rpcUrl :: string
  defaultCommitment :: string

datatype error =
    TypeError
  | NoViableProgramAddress
  | NoInstructions
  | RpcFailure string
  | IOFailure string

subsection \<open>The outside world\<close>

text \<open>
  \<open>'w\<close> is the state of everything outside the process: the ledger, the faucet, the
  key files, the random generator. A query reads it; a request may change it. Every
  call may fail with an error, which the client never catches.
  \<^item> \<open>bs58_decode\<close>, \<open>sha256\<close>, \<open>is_on_curve\<close>, \<open>pda_marker\<close>: the decoder of base-58
    text, the hash, the curve test and the suffix used inside the web3 library;
  \<^item> \<open>Keypair_generate\<close>: \<^verbatim>\<open>Keypair.generate()\<close>, which draws from the random generator;
  \<^item> \<open>getPayer\<close>: \<^verbatim>\<open>getPayer()\<close> of the \<^verbatim>\<open>utils\<close> module;
  \<^item> \<open>getRecentBlockhash\<close> (giving the blockhash and the fee calculator's
    \<^verbatim>\<open>lamportsPerSignature\<close>), \<open>getBalance\<close> and \<open>getMinimumBalanceForRentExemption\<close>:
    queries of the node;
  \<^item> \<open>requestAirdrop\<close>, \<open>confirmTransaction\<close> (whose result the client drops) and
    \<open>sendAndConfirmTransaction\<close>: requests to the node, giving a signature.
\<close>

record 'w services =
  bs58_decode :: "string \<Rightarrow> Buffer"
  sha256 :: "Buffer \<Rightarrow> Buffer"
  is_on_curve :: "Buffer \<Rightarrow> bool"
  pda_marker :: Buffer
  Keypair_generate :: "'w \<Rightarrow> Keypair \<times> 'w"
  getPayer :: "'w \<Rightarrow> (error + Keypair) \<times> 'w"
  getRecentBlockhash :: "Connection \<Rightarrow> 'w \<Rightarrow> error + (string \<times> nat)"
  getBalance :: "Connection \<Rightarrow> 'w \<Rightarrow> PublicKey \<Rightarrow> error + nat"
  requestAirdrop :: "Connection \<Rightarrow> 'w \<Rightarrow> PublicKey \<Rightarrow> nat \<Rightarrow> (error + string) \<times> 'w"
  confirmTransaction :: "Connection \<Rightarrow> 'w \<Rightarrow> string \<Rightarrow> (error + unit) \<times> 'w"
  getMinimumBalanceForRentExemption :: "Connection \<Rightarrow> 'w \<Rightarrow> nat \<Rightarrow> error + nat"
  sendAndConfirmTransaction ::
    "Connection \<Rightarrow> 'w \<Rightarrow> Transaction \<Rightarrow> Keypair list \<Rightarrow> ConfirmOptions \<Rightarrow> (error + string) \<times> 'w"

text \<open>
  The requests the process sends to the node, in the order it sends them. The list is
  kept next to the module's globals so that a property can speak about what was sent.
\<close>

datatype call =
    GetRecentBlockhash
  | GetBalance PublicKey
  | RequestAirdrop PublicKey nat
  | ConfirmTransaction string
  | GetMinimumBalanceForRentExemption nat
  | SendAndConfirmTransaction Transaction "Keypair list" ConfirmOptions

text \<open>
  The module's globals \<^verbatim>\<open>connection\<close>, \<^verbatim>\<open>payer\<close> and \<^verbatim>\<open>programId\<close> start undefined
  (\<open>None\<close>).
\<close>

record 'w process =
  world :: 'w
  calls :: "call list"
  connection :: "Connection option"
  payer :: "Keypair option"
  programId :: "PublicKey option"

type_synonym ('w, 'a) prog = "'w process \<Rightarrow> (error + 'a) \<times> 'w process"

definition return :: "'a \<Rightarrow> ('w, 'a) prog" where
  "return x st = (Inr x, st)"

text \<open>\<open>await m f\<close> runs \<open>m\<close>; an error ends the function, a value goes on to \<open>f\<close>.\<close>

definition await :: "('w, 'a) prog \<Rightarrow> ('a \<Rightarrow> ('w, 'b) prog) \<Rightarrow> ('w, 'b) prog" where
  "await m f st = (case m st of (Inl e, st') \<Rightarrow> (Inl e, st') | (Inr x, st') \<Rightarrow> f x st')"

text \<open>Reading a global that is still undefined and using it raises a TypeError.\<close>

definition the_connection :: "('w, Connection) prog" where
  "the_connection st = (case connection st of None \<Rightarrow> (Inl TypeError, st) | Some c \<Rightarrow> (Inr c, st))"

definition the_payer :: "('w, Keypair) prog" where
  "the_payer st = (case payer st of None \<Rightarrow> (Inl TypeError, st) | Some k \<Rightarrow> (Inr k, st))"

definition the_programId :: "('w, PublicKey) prog" where
  "the_programId st = (case programId st of None \<Rightarrow> (Inl TypeError, st) | Some p \<Rightarrow> (Inr p, st))"

definition query :: "call \<Rightarrow> (Connection \<Rightarrow> 'w \<Rightarrow> error + 'a) \<Rightarrow> ('w, 'a) prog" where
  "query c f = await the_connection
     (\<lambda>con st. (f con (world st), st\<lparr>calls := calls st @ [c]\<rparr>))"

definition request :: "call \<Rightarrow> (Connection \<Rightarrow> 'w \<Rightarrow> (error + 'a) \<times> 'w) \<Rightarrow> ('w, 'a) prog" where
  "request c f = await the_connection
     (\<lambda>con st. (case f con (world st) of
        (r, w') \<Rightarrow> (r, st\<lparr>world := w', calls := calls st @ [c]\<rparr>)))"

definition local_effect :: "('w \<Rightarrow> (error + 'a) \<times> 'w) \<Rightarrow> ('w, 'a) prog" where
  "local_effect f st = (case f (world st) of (r, w') \<Rightarrow> (r, st\<lparr>world := w'\<rparr>))"

section \<open>establishPayer\<close>

text \<open>
  \<^verbatim>\<open>
  let fees = 0;
  if (!payer) {
      const {feeCalculator} = await connection.getRecentBlockhash();
      fees += feeCalculator.lamportsPerSignature * 100;
      payer = await getPayer();
  }
  let lamports = await connection.getBalance(payer.publicKey);
  if (lamports < fees) {
      const sig = await connection.requestAirdrop(payer.publicKey, fees - lamports);
      await connection.confirmTransaction(sig);
      lamports = await connection.getBalance(payer.publicKey);
  }
  console.log(...)
  \<close>
  The first block yields the fee requirement and the payer to use; console output is left
  out.
\<close>

definition load_payer :: "'w services \<Rightarrow> ('w, nat \<times> Keypair) prog" where
  "load_payer S st =
     (case payer st of
        None \<Rightarrow>
          await (query GetRecentBlockhash (getRecentBlockhash S))
            (\<lambda>(blockhash, lamportsPerSignature).
               await (local_effect (getPayer S))
                 (\<lambda>kp st'. (Inr (0 + lamportsPerSignature * 100, kp), st'\<lparr>payer := Some kp\<rparr>))) st
      | Some kp \<Rightarrow> (Inr (0, kp), st))"

definition establishPayer :: "'w services \<Rightarrow> ('w, unit) prog" where
  "establishPayer S =
     await (load_payer S)
       (\<lambda>(fees, kp).
          await (query (GetBalance (publicKey kp)) (\<lambda>c w. getBalance S c w (publicKey kp)))
            (\<lambda>lamports.
               if lamports < fees then
                 await (request (RequestAirdrop (publicKey kp) (fees - lamports))
                          (\<lambda>c w. requestAirdrop S c w (publicKey kp) (fees - lamports)))
                   (\<lambda>sig.
                      await (request (ConfirmTransaction sig) (\<lambda>c w. confirmTransaction S c w sig))
                        (\<lambda>_.
                           await (query (GetBalance (publicKey kp))
                                    (\<lambda>c w. getBalance S c w (publicKey kp)))
                             (\<lambda>lamports'. return ())))
               else return ()))"

section \<open>Program-derived addresses\<close>

text \<open>
  Modelled from the spec: \<^verbatim>\<open>PublicKey.findProgramAddress\<close> is a function of the web3
  library, which is not among the sources. The spec (section 4.1) gives its algorithm:
  try a single trailing bump byte from 255 down to 0; for each candidate hash the
  concatenation of all seeds, the bump byte, the owner program's address and a fixed
  domain-separation suffix; accept the first candidate whose hash is not on the key-pair
  curve; report an error when all 256 candidates fail. The hash, the curve test and the
  suffix are the parameters \<open>sha256\<close>, \<open>is_on_curve\<close> and \<open>pda_marker\<close>.
\<close>

definition candidate :: "'w services \<Rightarrow> Buffer list \<Rightarrow> PublicKey \<Rightarrow> nat \<Rightarrow> Buffer" where
  "candidate S seeds owner bump =
     sha256 S (concat seeds @ [of_nat bump] @ toBuffer owner @ pda_marker S)"

fun find_bump :: "'w services \<Rightarrow> Buffer list \<Rightarrow> PublicKey \<Rightarrow> nat \<Rightarrow> (PublicKey \<times> nat) option" where
  "find_bump S seeds owner 0 =
     (if \<not> is_on_curve S (candidate S seeds owner 0)
      then Some (PublicKey (candidate S seeds owner 0), 0) else None)"
| "find_bump S seeds owner (Suc n) =
     (if \<not> is_on_curve S (candidate S seeds owner (Suc n))
      then Some (PublicKey (candidate S seeds owner (Suc n)), Suc n)
      else find_bump S seeds owner n)"

definition findProgramAddress ::
  "'w services \<Rightarrow> Buffer list \<Rightarrow> PublicKey \<Rightarrow> error + (PublicKey \<times> nat)" where
  "findProgramAddress S seeds owner =
     (case find_bump S seeds owner 255 of
        None \<Rightarrow> Inl NoViableProgramAddress
      | Some r \<Rightarrow> Inr r)"

text \<open>\<^verbatim>\<open>(await PublicKey.findProgramAddress(seeds, owner))[0]\<close>: a pure computation that may throw.\<close>

definition derived_key :: "'w services \<Rightarrow> Buffer list \<Rightarrow> PublicKey \<Rightarrow> ('w, PublicKey) prog" where
  "derived_key S seeds owner st =
     (case findProgramAddress S seeds owner of
        Inl e \<Rightarrow> (Inl e, st)
      | Inr r \<Rightarrow> (Inr (fst r), st))"

section \<open>testContract\<close>

text \<open>\<^verbatim>\<open>Buffer.from(text)\<close> on an ASCII literal, and \<^verbatim>\<open>Buffer.alloc(n)\<close>.\<close>

definition Buffer_from :: "string \<Rightarrow> Buffer" where
  "Buffer_from s = map of_char s"

definition Buffer_alloc :: "nat \<Rightarrow> Buffer" where
  "Buffer_alloc n = replicate n 0"

text \<open>\<^verbatim>\<open>new PublicKey(text)\<close> on a base-58 literal.\<close>

definition PublicKey_of :: "'w services \<Rightarrow> string \<Rightarrow> PublicKey" where
  "PublicKey_of S s = PublicKey (bs58_decode S s)"

text \<open>
  Constants of the token library: the token program's address and the byte sizes of the
  mint and token-account layouts.
\<close>

definition TOKEN_PROGRAM_ID :: "'w services \<Rightarrow> PublicKey" where
  "TOKEN_PROGRAM_ID S = PublicKey_of S ''TokenkegQfeZyiNwAJbNbGKPFXCWuBvf9Ss623VQ5DA''"

definition MintLayout_span :: nat where
  "MintLayout_span = 82"

definition AccountLayout_span :: nat where
  "AccountLayout_span = 165"

text \<open>The addresses that lines 113--162 bind, under the names the source gives them.\<close>

record addresses =
  meta_program :: PublicKey
  minter_program :: PublicKey
  associated_program :: PublicKey
  mint_kp :: Keypair
  rugged_mint :: PublicKey
  token_key :: PublicKey
  rugged_token :: PublicKey
  meta_key :: PublicKey
  rugged_metadata :: PublicKey
  auth_key :: PublicKey
  sys_key :: PublicKey
  rent_key :: PublicKey
  new_update_auth :: PublicKey

definition derive_addresses :: "'w services \<Rightarrow> ('w, addresses) prog" where
  "derive_addresses S =
     (let meta = PublicKey_of S ''metaqbxxUerdq28cj1RbAWkYQm3ybzjb6a8bt518x1s'' in
      await the_programId (\<lambda>minter.
      let assoc = PublicKey_of S ''ATokenGPvbdGVxr1b2hvZbsiqW5xWH25efTNsLJA8knL'' in
      await (local_effect (\<lambda>w. case Keypair_generate S w of (k, w') \<Rightarrow> (Inr k, w'))) (\<lambda>kp.
      let rugged = PublicKey_of S ''GQFdQvFMjkq5x1Ny4nsEqRgcwdedJWpq3Fsy5KqjGKSm'' in
      await the_payer (\<lambda>p.
      await (derived_key S
               [toBuffer (publicKey p), toBuffer (TOKEN_PROGRAM_ID S), toBuffer (publicKey kp)]
               assoc) (\<lambda>tk.
      await (derived_key S
               [toBuffer (publicKey p), toBuffer (TOKEN_PROGRAM_ID S), toBuffer rugged]
               assoc) (\<lambda>rt.
      let buff = [Buffer_from ''metadata'', toBuffer meta, toBuffer (publicKey kp)] in
      await (derived_key S buff meta) (\<lambda>mk.
      let rug_buff = [Buffer_from ''metadata'', toBuffer meta, toBuffer rugged] in
      await (derived_key S rug_buff meta) (\<lambda>rm.
      await (derived_key S
               [Buffer_from ''amoebit_minter'', toBuffer minter, Buffer_from ''amoebit_minter'']
               minter) (\<lambda>ak.
      return
        \<lparr>meta_program = meta,
         minter_program = minter,
         associated_program = assoc,
         mint_kp = kp,
         rugged_mint = rugged,
         token_key = tk,
         rugged_token = rt,
         meta_key = mk,
         rugged_metadata = rm,
         auth_key = ak,
         sys_key = PublicKey_of S ''11111111111111111111111111111111'',
         rent_key = PublicKey_of S ''SysvarRent111111111111111111111111111111111'',
         new_update_auth = PublicKey_of S ''VLawmZTgLAbdeqrU579ohsdey9H1h3Mi1UeUJpg2mQB''\<rparr>)))))))))"

text \<open>Lines 165--177 and 213: \<^verbatim>\<open>account_0\<close> to \<^verbatim>\<open>account_12\<close>, in the order of \<^verbatim>\<open>keys\<close>.\<close>

definition accounts :: "'w services \<Rightarrow> PublicKey \<Rightarrow> addresses \<Rightarrow> AccountMeta list" where
  "accounts S payer_key a =
     [\<lparr>pubkey = payer_key, isSigner = True, isWritable = True\<rparr>,
      \<lparr>pubkey = rugged_mint a, isSigner = False, isWritable = True\<rparr>,
      \<lparr>pubkey = sys_key a, isSigner = False, isWritable = False\<rparr>,
      \<lparr>pubkey = token_key a, isSigner = False, isWritable = True\<rparr>,
      \<lparr>pubkey = publicKey (mint_kp a), isSigner = False, isWritable = True\<rparr>,
      \<lparr>pubkey = meta_key a, isSigner = False, isWritable = True\<rparr>,
      \<lparr>pubkey = meta_program a, isSigner = False, isWritable = False\<rparr>,
      \<lparr>pubkey = rent_key a, isSigner = False, isWritable = False\<rparr>,
      \<lparr>pubkey = auth_key a, isSigner = False, isWritable = True\<rparr>,
      \<lparr>pubkey = TOKEN_PROGRAM_ID S, isSigner = False, isWritable = False\<rparr>,
      \<lparr>pubkey = rugged_metadata a, isSigner = False, isWritable = True\<rparr>,
      \<lparr>pubkey = rugged_token a, isSigner = False, isWritable = True\<rparr>,
      \<lparr>pubkey = new_update_auth a, isSigner = False, isWritable = True\<rparr>]"

text \<open>
  \<^verbatim>\<open>new Transaction()\<close> and \<^verbatim>\<open>add(...items)\<close> of the web3 library: \<^verbatim>\<open>add\<close> throws
  (\<^verbatim>\<open>No instructions\<close>) when it is given no argument, and otherwise pushes its arguments
  onto the transaction's instruction list, first argument first.
\<close>

definition new_Transaction :: Transaction where
  "new_Transaction = \<lparr>instructions = [], recentBlockhash = None\<rparr>"

definition Transaction_add :: "Transaction \<Rightarrow> Instruction list \<Rightarrow> error + Transaction" where
  "Transaction_add t items =
     (if items = [] then Inl NoInstructions
      else Inr (t\<lparr>instructions := instructions t @ items\<rparr>))"

text \<open>
  Lines 219--235: the transaction is assembled from the instructions and passed, with the
  signers, to \<^verbatim>\<open>sendAndConfirmTransaction(connection, transaction, signers, {skipPreflight: true})\<close>.
\<close>

definition send_options :: ConfirmOptions where
  "send_options = \<lparr>skipPreflight = Some True, commitment = None, preflightCommitment = None\<rparr>"

definition send_transaction :: "'w services \<Rightarrow> Instruction list \<Rightarrow> Keypair list \<Rightarrow> ('w, unit) prog" where
  "send_transaction S items signers st =
     (case Transaction_add new_Transaction items of
        Inl e \<Rightarrow> (Inl e, st)
      | Inr transaction \<Rightarrow>
          await (request (SendAndConfirmTransaction transaction signers send_options)
                   (\<lambda>c w. sendAndConfirmTransaction S c w transaction signers send_options))
            (\<lambda>a. return ()) st)"

definition testContract :: "'w services \<Rightarrow> ('w, unit) prog" where
  "testContract S =
     await (derive_addresses S) (\<lambda>a.
     await the_payer (\<lambda>p.
     let keys = accounts S (publicKey p) a in
     await (query (GetMinimumBalanceForRentExemption MintLayout_span)
              (\<lambda>c w. getMinimumBalanceForRentExemption S c w MintLayout_span)) (\<lambda>mintRent.
     await (query (GetMinimumBalanceForRentExemption AccountLayout_span)
              (\<lambda>c w. getMinimumBalanceForRentExemption S c w AccountLayout_span)) (\<lambda>tokenRent.
     let mintAccount =
           SystemProgram_createAccount (publicKey p) (publicKey (mint_kp a)) mintRent
             MintLayout_span (TOKEN_PROGRAM_ID S);
         tokenAccount =
           Token_createAssociatedTokenAccountInstruction (associated_program a)
             (TOKEN_PROGRAM_ID S) (publicKey (mint_kp a)) (token_key a) (publicKey p) (publicKey p);
         create_token =
           Token_createInitMintInstruction (TOKEN_PROGRAM_ID S) (publicKey (mint_kp a)) 0
             (publicKey p) None;
         mint_into_token_account =
           Token_createMintToInstruction (TOKEN_PROGRAM_ID S) (publicKey (mint_kp a))
             (token_key a) (publicKey p) [] 1
     in
     await the_programId (\<lambda>pid.
     let instruction = TransactionInstruction keys pid (Buffer_alloc 0) in
     send_transaction S
       [mintAccount, create_token, tokenAccount, mint_into_token_account, instruction]
       [p, mint_kp a])))))"

section \<open>What a run sends\<close>

text \<open>The requests a run has added to the list of calls.\<close>

definition issued :: "'w process \<Rightarrow> 'w process \<Rightarrow> call list" where
  "issued st st' = drop (length (calls st)) (calls st')"

text \<open>The spec's names for the five instruction kinds (section 4.4).\<close>

datatype kind = CreateAccount | InitializeMint | CreateAssociatedAccount | MintTo | CustomInvoke

fun kind_of :: "Instruction \<Rightarrow> kind" where
  "kind_of (SystemProgram_createAccount f n l s p) = CreateAccount"
| "kind_of (Token_createInitMintInstruction p m d a f) = InitializeMint"
| "kind_of (Token_createAssociatedTokenAccountInstruction ap p m a ow py) = CreateAssociatedAccount"
| "kind_of (Token_createMintToInstruction p m d a ms n) = MintTo"
| "kind_of (TransactionInstruction ks p d) = CustomInvoke"

text \<open>
  The spec's table of the custom instruction's thirteen roles (section 4.4), as pairs
  (signer, writable) in the order of the table.
\<close>

definition template :: "(bool \<times> bool) list" where
  "template =
     [(True, True), (False, True), (False, False), (False, True), (False, True),
      (False, True), (False, False), (False, False), (False, True), (False, False),
      (False, True), (False, True), (False, True)]"

definition flags :: "AccountMeta list \<Rightarrow> (bool \<times> bool) list" where
  "flags ks = map (\<lambda>k. (isSigner k, isWritable k)) ks"



text \<open>
  The five instructions of lines 182--216, listed in the order in which lines 219--225 add
  them, for a payer \<open>p\<close>, resolved addresses \<open>a\<close>, program id \<open>pid\<close> and mint rent \<open>r\<close>.
\<close>

definition recipe :: "'w services \<Rightarrow> Keypair \<Rightarrow> addresses \<Rightarrow> PublicKey \<Rightarrow> nat \<Rightarrow> Instruction list" where
  "recipe S p a pid r =
     [SystemProgram_createAccount (publicKey p) (publicKey (mint_kp a)) r
        MintLayout_span (TOKEN_PROGRAM_ID S),
      Token_createInitMintInstruction (TOKEN_PROGRAM_ID S) (publicKey (mint_kp a)) 0
        (publicKey p) None,
      Token_createAssociatedTokenAccountInstruction (associated_program a)
        (TOKEN_PROGRAM_ID S) (publicKey (mint_kp a)) (token_key a) (publicKey p) (publicKey p),
      Token_createMintToInstruction (TOKEN_PROGRAM_ID S) (publicKey (mint_kp a))
        (token_key a) (publicKey p) [] 1,
      TransactionInstruction (accounts S (publicKey p) a) pid (Buffer_alloc 0)]"

section \<open>A small concrete world\<close>

text \<open>
  A world with one balance and a faucet that either pays a requested airdrop when it is
  confirmed or lets it lapse; the node charges 50 lamports per signature. The hash and
  the decoder are stand-ins, and no hash is on the curve.
\<close>

record sample_world =
  sw_balance :: nat
  sw_pending :: nat
  sw_faucet_pays :: bool

definition sample_payer :: Keypair where
  "sample_payer = \<lparr>publicKey = PublicKey [1], secretKey = [1]\<rparr>"

definition sample_mint :: Keypair where
  "sample_mint = \<lparr>publicKey = PublicKey [2], secretKey = [2]\<rparr>"

definition sample_connection :: Connection where
  "sample_connection = \<lparr>rpcUrl = ''http://localhost:8899'', defaultCommitment = ''confirmed''\<rparr>"

definition sample_services :: "sample_world services" where
  "sample_services =
     \<lparr>bs58_decode = Buffer_from,
      sha256 = take 32,
      is_on_curve = (\<lambda>b. False),
      pda_marker = Buffer_from ''ProgramDerivedAddress'',
      Keypair_generate = (\<lambda>w. (sample_mint, w)),
      getPayer = (\<lambda>w. (Inr sample_payer, w)),
      getRecentBlockhash = (\<lambda>c w. Inr (''blockhash'', 50)),
      getBalance = (\<lambda>c w k. Inr (sw_balance w)),
      requestAirdrop = (\<lambda>c w k n. (Inr ''airdrop'', w\<lparr>sw_pending := n\<rparr>)),
      confirmTransaction = (\<lambda>c w s.
        (Inr (), if sw_faucet_pays w
                 then w\<lparr>sw_balance := sw_balance w + sw_pending w, sw_pending := 0\<rparr>
                 else w\<lparr>sw_pending := 0\<rparr>)),
      getMinimumBalanceForRentExemption = (\<lambda>c w n. Inr (n * 7000)),
      sendAndConfirmTransaction = (\<lambda>c w t sg op. (Inr ''signature'', w))\<rparr>"

text \<open>The process after \<^verbatim>\<open>establishConnection\<close> and \<^verbatim>\<open>checkAccounts\<close>, before \<^verbatim>\<open>establishPayer\<close>.\<close>

definition sample_start :: "bool \<Rightarrow> sample_world process" where
  "sample_start pays =
     \<lparr>world = \<lparr>sw_balance = 0, sw_pending = 0, sw_faucet_pays = pays\<rparr>,
      calls = [],
      connection = Some sample_connection,
      payer = None,
      programId = Some (PublicKey [3])\<rparr>"

text \<open>The same process with the payer loaded.\<close>

definition sample_ready :: "sample_world process" where
  "sample_ready = (sample_start True)\<lparr>payer := Some sample_payer\<rparr>"



text \<open>A second set of services, over another world, that shares only the hash, the curve test
  and the suffix with the first: its node is unreachable and it has no key file.\<close>

definition offline_services :: "unit services" where
  "offline_services =
     \<lparr>bs58_decode = (\<lambda>s. []),
      sha256 = take 32,
      is_on_curve = (\<lambda>b. False),
      pda_marker = Buffer_from ''ProgramDerivedAddress'',
      Keypair_generate = (\<lambda>w. (sample_payer, w)),
      getPayer = (\<lambda>w. (Inl (IOFailure ''no key file''), w)),
      getRecentBlockhash = (\<lambda>c w. Inl (RpcFailure ''offline'')),
      getBalance = (\<lambda>c w k. Inl (RpcFailure ''offline'')),
      requestAirdrop = (\<lambda>c w k n. (Inl (RpcFailure ''offline''), w)),
      confirmTransaction = (\<lambda>c w s. (Inl (RpcFailure ''offline''), w)),
      getMinimumBalanceForRentExemption = (\<lambda>c w n. Inl (RpcFailure ''offline'')),
      sendAndConfirmTransaction = (\<lambda>c w t sg op. (Inl (RpcFailure ''offline''), w))\<rparr>"

definition offline_process :: "unit process" where
  "offline_process =
     \<lparr>world = (), calls = [], connection = None, payer = None, programId = None\<rparr>"

section \<open>Helper lemmas\<close>

lemma sample_services_simps:
  "is_on_curve sample_services b = False"
  "Keypair_generate sample_services w = (sample_mint, w)"
  "getPayer sample_services w = (Inr sample_payer, w)"
  "getRecentBlockhash sample_services c w = Inr (''blockhash'', 50)"
  "getBalance sample_services c w k = Inr (sw_balance w)"
  "requestAirdrop sample_services c w k n = (Inr ''airdrop'', w\<lparr>sw_pending := n\<rparr>)"
  "confirmTransaction sample_services c w sg =
     (Inr (), if sw_faucet_pays w
              then w\<lparr>sw_balance := sw_balance w + sw_pending w, sw_pending := 0\<rparr>
              else w\<lparr>sw_pending := 0\<rparr>)"
  "getMinimumBalanceForRentExemption sample_services c w n = Inr (n * 7000)"
  "sendAndConfirmTransaction sample_services c w t sgs op = (Inr ''signature'', w)"
  by (simp_all add: sample_services_def)

lemma sample_process_simps:
  "payer sample_ready = Some sample_payer"
  "programId sample_ready = Some (PublicKey [3])"
  "connection sample_ready = Some sample_connection"
  "calls sample_ready = []"
  "payer (sample_start b) = None"
  "programId (sample_start b) = Some (PublicKey [3])"
  "connection (sample_start b) = Some sample_connection"
  "calls (sample_start b) = []"
  "world (sample_start b) = \<lparr>sw_balance = 0, sw_pending = 0, sw_faucet_pays = b\<rparr>"
  by (simp_all add: sample_ready_def sample_start_def)

lemma find_bump_Suc_first:
  "\<not> is_on_curve S (candidate S seeds owner (Suc n)) \<Longrightarrow>
     find_bump S seeds owner (Suc n) = Some (PublicKey (candidate S seeds owner (Suc n)), Suc n)"
  by simp

lemma find_bump_first:
  assumes "\<not> is_on_curve S (candidate S seeds owner 255)"
  shows "findProgramAddress S seeds owner = Inr (PublicKey (candidate S seeds owner 255), 255)"
  using assms find_bump_Suc_first [of S seeds owner 254]
  by (simp add: findProgramAddress_def)

lemma derived_key_Inr:
  "derived_key S seeds owner st = (Inr k, st') \<longleftrightarrow>
     st' = st \<and> (\<exists>b. findProgramAddress S seeds owner = Inr (k, b))"
  by (auto simp: derived_key_def split: sum.splits)

text \<open>What the bindings of lines 113--162 hold when none of them throws.\<close>

lemma derive_addresses_Inr:
  assumes "derive_addresses S st = (Inr a, st')"
  shows "\<exists>p pid kp w'.
     payer st = Some p \<and> programId st = Some pid \<and> Keypair_generate S (world st) = (kp, w') \<and>
     st' = st\<lparr>world := w'\<rparr> \<and>
     mint_kp a = kp \<and> minter_program a = pid \<and>
     meta_program a = PublicKey_of S ''metaqbxxUerdq28cj1RbAWkYQm3ybzjb6a8bt518x1s'' \<and>
     associated_program a = PublicKey_of S ''ATokenGPvbdGVxr1b2hvZbsiqW5xWH25efTNsLJA8knL'' \<and>
     rugged_mint a = PublicKey_of S ''GQFdQvFMjkq5x1Ny4nsEqRgcwdedJWpq3Fsy5KqjGKSm'' \<and>
     (\<exists>b. findProgramAddress S
            [toBuffer (publicKey p), toBuffer (TOKEN_PROGRAM_ID S), toBuffer (publicKey kp)]
            (associated_program a) = Inr (token_key a, b)) \<and>
     (\<exists>b. findProgramAddress S
            [Buffer_from ''metadata'', toBuffer (meta_program a), toBuffer (publicKey kp)]
            (meta_program a) = Inr (meta_key a, b)) \<and>
     (\<exists>b. findProgramAddress S
            [Buffer_from ''amoebit_minter'', toBuffer pid, Buffer_from ''amoebit_minter'']
            pid = Inr (auth_key a, b))"
  using assms
  unfolding derive_addresses_def Let_def
  by (auto simp: await_def the_programId_def the_payer_def local_effect_def return_def
        derived_key_def
      split: option.splits prod.splits sum.splits)

lemma derive_addresses_calls: "calls (snd (derive_addresses S st)) = calls st"
  unfolding derive_addresses_def Let_def
  by (auto simp: await_def the_programId_def the_payer_def local_effect_def return_def
        derived_key_def
      split: option.splits prod.splits sum.splits)

lemma derive_addresses_Inl: "derive_addresses S st = (Inl e, st') \<Longrightarrow> calls st' = calls st"
  using derive_addresses_calls [of S st] by simp

text \<open>
  Every submission of a run of \<open>testContract\<close> carries the same transaction: the five
  instructions of lines 182--216 in the order of lines 219--225, the two signers of
  line 231 and the options of line 232.
\<close>

lemma testContract_sends:
  assumes "SendAndConfirmTransaction tx sg op \<in> set (issued st (snd (testContract S st)))"
  shows "\<exists>a st1 p pid c mintRent.
     derive_addresses S st = (Inr a, st1) \<and> payer st = Some p \<and> programId st = Some pid \<and>
     connection st = Some c \<and>
     getMinimumBalanceForRentExemption S c (world st1) MintLayout_span = Inr mintRent \<and>
     instructions tx = recipe S p a pid mintRent \<and>
     sg = [p, mint_kp a] \<and> op = send_options"
proof (cases "derive_addresses S st")
  case (Pair r st1)
  show ?thesis
  proof (cases r)
    case (Inl e)
    with Pair have "testContract S st = (Inl e, st1)"
      by (simp add: testContract_def await_def)
    moreover have "calls st1 = calls st"
      using Pair Inl derive_addresses_Inl by blast
    ultimately show ?thesis using assms by (simp add: issued_def)
  next
    case (Inr a)
    with Pair have d: "derive_addresses S st = (Inr a, st1)" by simp
    from derive_addresses_Inr [OF d] obtain p pid w' where
      g: "payer st = Some p" "programId st = Some pid" "st1 = st\<lparr>world := w'\<rparr>"
      by blast
    show ?thesis
      using assms d g
      unfolding testContract_def send_transaction_def Let_def
      by (auto simp: await_def the_programId_def the_payer_def the_connection_def query_def
            request_def return_def issued_def new_Transaction_def Transaction_add_def recipe_def
          split: option.splits prod.splits sum.splits)
  qed
qed

text \<open>
  A run that submits has got through every earlier step, its submission is the last of
  three requests, and its result and final world are those that the node's
  \<^verbatim>\<open>sendAndConfirmTransaction\<close> gives for that transaction, those signers and those options.
\<close>

lemma testContract_result:
  assumes "SendAndConfirmTransaction tx sg op \<in> set (issued st (snd (testContract S st)))"
  shows "\<exists>a p pid c mintRent w'.
     derive_addresses S st = (Inr a, st\<lparr>world := w'\<rparr>) \<and>
     Keypair_generate S (world st) = (mint_kp a, w') \<and>
     payer st = Some p \<and> programId st = Some pid \<and> connection st = Some c \<and>
     tx = \<lparr>instructions = recipe S p a pid mintRent, recentBlockhash = None\<rparr> \<and>
     sg = [p, mint_kp a] \<and> op = send_options \<and>
     fst (testContract S st) =
       (case fst (sendAndConfirmTransaction S c w' tx sg op) of
          Inl e \<Rightarrow> Inl e | Inr signature \<Rightarrow> Inr ()) \<and>
     world (snd (testContract S st)) = snd (sendAndConfirmTransaction S c w' tx sg op) \<and>
     issued st (snd (testContract S st)) =
       [GetMinimumBalanceForRentExemption MintLayout_span,
        GetMinimumBalanceForRentExemption AccountLayout_span,
        SendAndConfirmTransaction tx sg op]"
proof (cases "derive_addresses S st")
  case (Pair r st1)
  show ?thesis
  proof (cases r)
    case (Inl e)
    with Pair have "testContract S st = (Inl e, st1)"
      by (simp add: testContract_def await_def)
    moreover have "calls st1 = calls st"
      using Pair Inl derive_addresses_Inl by blast
    ultimately show ?thesis using assms by (simp add: issued_def)
  next
    case (Inr a)
    with Pair have d: "derive_addresses S st = (Inr a, st1)" by simp
    from derive_addresses_Inr [OF d] obtain p pid w' where
      g: "payer st = Some p" "programId st = Some pid" "st1 = st\<lparr>world := w'\<rparr>"
        "Keypair_generate S (world st) = (mint_kp a, w')"
      by blast
    show ?thesis
      using assms d g
      unfolding testContract_def send_transaction_def Let_def
      by (auto simp: await_def the_programId_def the_payer_def the_connection_def query_def
            request_def return_def issued_def new_Transaction_def Transaction_add_def recipe_def
          split: option.splits prod.splits sum.splits)
  qed
qed



text \<open>The run in the sample world does submit.\<close>

lemma sample_derived_key:
  "derived_key sample_services seeds owner st =
     (Inr (PublicKey (candidate sample_services seeds owner 255)), st)"
  by (simp add: derived_key_def find_bump_first sample_services_simps)

lemma sample_derive:
  "\<exists>a. derive_addresses sample_services sample_ready = (Inr a, sample_ready)"
  unfolding derive_addresses_def Let_def
  by (simp add: await_def sample_derived_key the_programId_def the_payer_def local_effect_def
        return_def sample_process_simps sample_services_simps)

lemma sample_run:
  "\<exists>tx sg op. SendAndConfirmTransaction tx sg op
      \<in> set (issued sample_ready (snd (testContract sample_services sample_ready)))"
proof -
  obtain a where a: "derive_addresses sample_services sample_ready = (Inr a, sample_ready)"
    using sample_derive by blast
  show ?thesis
    unfolding testContract_def send_transaction_def Let_def
    by (simp add: a sample_process_simps await_def the_payer_def the_programId_def
          the_connection_def query_def request_def return_def issued_def sample_services_simps
          Transaction_add_def new_Transaction_def)
qed

section \<open>The transaction that testContract submits\<close>

text \<open>
  Claim C1. In every submission of \<open>testContract\<close>, the fifth instruction is the custom
  call; its account list has exactly thirteen entries, in the order payer, secondary mint,
  system program, associated token account, new mint, metadata record, metadata program,
  rent sysvar, authority, token program, secondary metadata record, secondary associated
  account, new update authority; entry 0 is signer and writable, entries 1, 3, 4, 5, 8, 10,
  11 and 12 are writable non-signers, entries 2, 6, 7 and 9 are read-only non-signers (the
  spec's table); and its payload is empty. This holds whatever the addresses are.
\<close>

theorem custom_invoke_account_list:
  assumes "SendAndConfirmTransaction tx sg op \<in> set (issued st (snd (testContract S st)))"
  shows "\<exists>ks pid a st1 p.
     length (instructions tx) = 5 \<and>
     instructions tx ! 4 = TransactionInstruction ks pid [] \<and>
     length ks = 13 \<and>
     map isSigner ks =
       [True, False, False, False, False, False, False, False, False, False, False, False, False] \<and>
     map isWritable ks =
       [True, True, False, True, True, True, False, False, True, False, True, True, True] \<and>
     flags ks = template \<and>
     derive_addresses S st = (Inr a, st1) \<and> payer st = Some p \<and>
     map pubkey ks =
       [publicKey p, rugged_mint a, sys_key a, token_key a, publicKey (mint_kp a), meta_key a,
        meta_program a, rent_key a, auth_key a, TOKEN_PROGRAM_ID S, rugged_metadata a,
        rugged_token a, new_update_auth a]"
proof -
  from testContract_sends [OF assms] obtain a st1 p pid and c :: Connection and mintRent where
    d: "derive_addresses S st = (Inr a, st1)" and p: "payer st = Some p" and
    i: "instructions tx = recipe S p a pid mintRent"
    by blast
  show ?thesis
  proof (intro exI conjI)
    show "length (instructions tx) = 5" by (simp add: i recipe_def)
    show "instructions tx ! 4 = TransactionInstruction (accounts S (publicKey p) a) pid []"
      by (simp add: i recipe_def Buffer_alloc_def)
    show "length (accounts S (publicKey p) a) = 13" by (simp add: accounts_def)
    show "map isSigner (accounts S (publicKey p) a) =
       [True, False, False, False, False, False, False, False, False, False, False, False, False]"
      by (simp add: accounts_def)
    show "map isWritable (accounts S (publicKey p) a) =
       [True, True, False, True, True, True, False, False, True, False, True, True, True]"
      by (simp add: accounts_def)
    show "flags (accounts S (publicKey p) a) = template"
      by (simp add: accounts_def flags_def template_def)
    show "derive_addresses S st = (Inr a, st1)" by (rule d)
    show "payer st = Some p" by (rule p)
    show "map pubkey (accounts S (publicKey p) a) =
       [publicKey p, rugged_mint a, sys_key a, token_key a, publicKey (mint_kp a), meta_key a,
        meta_program a, rent_key a, auth_key a, TOKEN_PROGRAM_ID S, rugged_metadata a,
        rugged_token a, new_update_auth a]"
      by (simp add: accounts_def)
  qed
qed

theorem custom_invoke_account_list_witness:
  "\<exists>tx sg op.
     SendAndConfirmTransaction tx sg op
       \<in> set (issued sample_ready (snd (testContract sample_services sample_ready))) \<and>
     (\<exists>ks pid. instructions tx ! 4 = TransactionInstruction ks pid [] \<and> length ks = 13 \<and>
        flags ks = template)"
proof -
  from sample_run obtain tx sg op where
    m: "SendAndConfirmTransaction tx sg op
       \<in> set (issued sample_ready (snd (testContract sample_services sample_ready)))"
    by blast
  from custom_invoke_account_list [OF m] show ?thesis using m by blast
qed

text \<open>
  Claim C2. In every submission of \<open>testContract\<close>, the transaction's instruction list is
  CreateAccount, InitializeMint, CreateAssociatedAccount, MintTo, CustomInvoke, in that
  order; and a new transaction to which one or more instructions are added holds exactly
  those instructions, in the order given.
\<close>

theorem transaction_instruction_order:
  assumes "SendAndConfirmTransaction tx sg op \<in> set (issued st (snd (testContract S st)))"
  shows "map kind_of (instructions tx) =
       [CreateAccount, InitializeMint, CreateAssociatedAccount, MintTo, CustomInvoke] \<and>
     Transaction_add new_Transaction (x # items) =
       Inr \<lparr>instructions = x # items, recentBlockhash = None\<rparr>"
proof -
  from testContract_sends [OF assms] obtain a p pid mintRent where
    i: "instructions tx = recipe S p a pid mintRent"
    by blast
  show ?thesis by (simp add: i recipe_def Transaction_add_def new_Transaction_def)
qed

theorem transaction_instruction_order_witness:
  "\<exists>tx sg op.
     SendAndConfirmTransaction tx sg op
       \<in> set (issued sample_ready (snd (testContract sample_services sample_ready))) \<and>
     map kind_of (instructions tx) =
       [CreateAccount, InitializeMint, CreateAssociatedAccount, MintTo, CustomInvoke]"
proof -
  from sample_run obtain tx sg op where
    m: "SendAndConfirmTransaction tx sg op
       \<in> set (issued sample_ready (snd (testContract sample_services sample_ready)))"
    by blast
  from transaction_instruction_order [OF m] show ?thesis using m by blast
qed

text \<open>
  Claim C5. In every submission of \<open>testContract\<close>, the metadata record (entry 5 of the
  custom call) is derived from the seeds \<^verbatim>\<open>metadata\<close>, the metadata program's address
  and the mint's address under the metadata program; the authority (entry 8) from the
  seeds \<^verbatim>\<open>amoebit_minter\<close>, the minter program's address and \<^verbatim>\<open>amoebit_minter\<close> again
  under the minter program; and the associated token address (entry 3) from the payer's
  address, the token program's address and the mint's address under the
  associated-account program. The mint is the second signer's key.
\<close>

theorem derived_address_seeds:
  assumes "SendAndConfirmTransaction tx sg op \<in> set (issued st (snd (testContract S st)))"
  shows "\<exists>ks pid d p kp b1 b2 b3.
     instructions tx ! 4 = TransactionInstruction ks pid d \<and>
     payer st = Some p \<and> programId st = Some pid \<and> sg = [p, kp] \<and>
     pubkey (ks ! 4) = publicKey kp \<and>
     findProgramAddress S
       [Buffer_from ''metadata'',
        toBuffer (PublicKey_of S ''metaqbxxUerdq28cj1RbAWkYQm3ybzjb6a8bt518x1s''),
        toBuffer (publicKey kp)]
       (PublicKey_of S ''metaqbxxUerdq28cj1RbAWkYQm3ybzjb6a8bt518x1s'') = Inr (pubkey (ks ! 5), b1) \<and>
     findProgramAddress S
       [Buffer_from ''amoebit_minter'', toBuffer pid, Buffer_from ''amoebit_minter'']
       pid = Inr (pubkey (ks ! 8), b2) \<and>
     findProgramAddress S
       [toBuffer (publicKey p), toBuffer (TOKEN_PROGRAM_ID S), toBuffer (publicKey kp)]
       (PublicKey_of S ''ATokenGPvbdGVxr1b2hvZbsiqW5xWH25efTNsLJA8knL'') = Inr (pubkey (ks ! 3), b3)"
proof -
  from testContract_sends [OF assms] obtain a st1 p pid and c :: Connection and mintRent where
    d: "derive_addresses S st = (Inr a, st1)" and p: "payer st = Some p" and
    pid: "programId st = Some pid" and
    i: "instructions tx = recipe S p a pid mintRent" and sg: "sg = [p, mint_kp a]"
    by blast
  from derive_addresses_Inr [OF d] p pid obtain b3 b1 b2 where
    m: "meta_program a = PublicKey_of S ''metaqbxxUerdq28cj1RbAWkYQm3ybzjb6a8bt518x1s''" and
    as: "associated_program a = PublicKey_of S ''ATokenGPvbdGVxr1b2hvZbsiqW5xWH25efTNsLJA8knL''" and
    t: "findProgramAddress S
            [toBuffer (publicKey p), toBuffer (TOKEN_PROGRAM_ID S), toBuffer (publicKey (mint_kp a))]
            (associated_program a) = Inr (token_key a, b3)" and
    k: "findProgramAddress S
            [Buffer_from ''metadata'', toBuffer (meta_program a), toBuffer (publicKey (mint_kp a))]
            (meta_program a) = Inr (meta_key a, b1)" and
    au: "findProgramAddress S
            [Buffer_from ''amoebit_minter'', toBuffer pid, Buffer_from ''amoebit_minter'']
            pid = Inr (auth_key a, b2)"
    by auto
  show ?thesis
  proof (intro exI conjI)
    show "instructions tx ! 4 = TransactionInstruction (accounts S (publicKey p) a) pid (Buffer_alloc 0)"
      by (simp add: i recipe_def)
    show "payer st = Some p" by (rule p)
    show "programId st = Some pid" by (rule pid)
    show "sg = [p, mint_kp a]" by (rule sg)
    show "pubkey (accounts S (publicKey p) a ! 4) = publicKey (mint_kp a)"
      by (simp add: accounts_def)
    show "findProgramAddress S
       [Buffer_from ''metadata'',
        toBuffer (PublicKey_of S ''metaqbxxUerdq28cj1RbAWkYQm3ybzjb6a8bt518x1s''),
        toBuffer (publicKey (mint_kp a))]
       (PublicKey_of S ''metaqbxxUerdq28cj1RbAWkYQm3ybzjb6a8bt518x1s'')
       = Inr (pubkey (accounts S (publicKey p) a ! 5), b1)"
      using k by (simp add: accounts_def m)
    show "findProgramAddress S
       [Buffer_from ''amoebit_minter'', toBuffer pid, Buffer_from ''amoebit_minter'']
       pid = Inr (pubkey (accounts S (publicKey p) a ! 8), b2)"
      using au by (simp add: accounts_def)
    show "findProgramAddress S
       [toBuffer (publicKey p), toBuffer (TOKEN_PROGRAM_ID S), toBuffer (publicKey (mint_kp a))]
       (PublicKey_of S ''ATokenGPvbdGVxr1b2hvZbsiqW5xWH25efTNsLJA8knL'')
       = Inr (pubkey (accounts S (publicKey p) a ! 3), b3)"
      using t by (simp add: accounts_def as)
  qed
qed

theorem derived_address_seeds_witness:
  "\<exists>tx sg op.
     SendAndConfirmTransaction tx sg op
       \<in> set (issued sample_ready (snd (testContract sample_services sample_ready))) \<and>
     (\<exists>ks pid d b.
        instructions tx ! 4 = TransactionInstruction ks pid d \<and>
        findProgramAddress sample_services
          [Buffer_from ''amoebit_minter'', toBuffer (PublicKey [3]), Buffer_from ''amoebit_minter'']
          (PublicKey [3]) = Inr (pubkey (ks ! 8), b))"
proof -
  from sample_run obtain tx sg op where
    m: "SendAndConfirmTransaction tx sg op
       \<in> set (issued sample_ready (snd (testContract sample_services sample_ready)))"
    by blast
  from derived_address_seeds [OF m]
  have "\<exists>ks pid d b.
        instructions tx ! 4 = TransactionInstruction ks pid d \<and>
        findProgramAddress sample_services
          [Buffer_from ''amoebit_minter'', toBuffer (PublicKey [3]), Buffer_from ''amoebit_minter'']
          (PublicKey [3]) = Inr (pubkey (ks ! 8), b)"
    by (auto simp: sample_process_simps)
  with m show ?thesis by blast
qed

text \<open>
  Claim C6. In every submission of \<open>testContract\<close>, the fourth instruction mints amount 1
  of the mint that the first instruction creates, into the payer's associated token account
  (the address derived from payer, token program and mint, which the third instruction
  creates for the payer), with the payer's key as the authority and no further signers; the
  payer is the first signer of the submission.
\<close>

theorem mint_to_one_unit:
  assumes "SendAndConfirmTransaction tx sg op \<in> set (issued st (snd (testContract S st)))"
  shows "\<exists>p mint tk r b.
     payer st = Some p \<and> hd sg = p \<and>
     instructions tx ! 0 =
       SystemProgram_createAccount (publicKey p) mint r MintLayout_span (TOKEN_PROGRAM_ID S) \<and>
     instructions tx ! 2 =
       Token_createAssociatedTokenAccountInstruction
         (PublicKey_of S ''ATokenGPvbdGVxr1b2hvZbsiqW5xWH25efTNsLJA8knL'')
         (TOKEN_PROGRAM_ID S) mint tk (publicKey p) (publicKey p) \<and>
     findProgramAddress S
       [toBuffer (publicKey p), toBuffer (TOKEN_PROGRAM_ID S), toBuffer mint]
       (PublicKey_of S ''ATokenGPvbdGVxr1b2hvZbsiqW5xWH25efTNsLJA8knL'') = Inr (tk, b) \<and>
     instructions tx ! 3 =
       Token_createMintToInstruction (TOKEN_PROGRAM_ID S) mint tk (publicKey p) [] 1"
proof -
  from testContract_sends [OF assms] obtain a st1 p pid and c :: Connection and mintRent where
    d: "derive_addresses S st = (Inr a, st1)" and p: "payer st = Some p" and
    i: "instructions tx = recipe S p a pid mintRent" and sg: "sg = [p, mint_kp a]"
    by blast
  from derive_addresses_Inr [OF d] p obtain b where
    as: "associated_program a = PublicKey_of S ''ATokenGPvbdGVxr1b2hvZbsiqW5xWH25efTNsLJA8knL''" and
    t: "findProgramAddress S
            [toBuffer (publicKey p), toBuffer (TOKEN_PROGRAM_ID S), toBuffer (publicKey (mint_kp a))]
            (associated_program a) = Inr (token_key a, b)"
    by auto
  show ?thesis
  proof (intro exI conjI)
    show "payer st = Some p" by (rule p)
    show "hd sg = p" by (simp add: sg)
    show "instructions tx ! 0 =
       SystemProgram_createAccount (publicKey p) (publicKey (mint_kp a)) mintRent MintLayout_span
         (TOKEN_PROGRAM_ID S)"
      by (simp add: i recipe_def)
    show "instructions tx ! 2 =
       Token_createAssociatedTokenAccountInstruction
         (PublicKey_of S ''ATokenGPvbdGVxr1b2hvZbsiqW5xWH25efTNsLJA8knL'')
         (TOKEN_PROGRAM_ID S) (publicKey (mint_kp a)) (token_key a) (publicKey p) (publicKey p)"
      by (simp add: i recipe_def as)
    show "findProgramAddress S
       [toBuffer (publicKey p), toBuffer (TOKEN_PROGRAM_ID S), toBuffer (publicKey (mint_kp a))]
       (PublicKey_of S ''ATokenGPvbdGVxr1b2hvZbsiqW5xWH25efTNsLJA8knL'') = Inr (token_key a, b)"
      using t by (simp add: as)
    show "instructions tx ! 3 =
       Token_createMintToInstruction (TOKEN_PROGRAM_ID S) (publicKey (mint_kp a)) (token_key a)
         (publicKey p) [] 1"
      by (simp add: i recipe_def)
  qed
qed

theorem mint_to_one_unit_witness:
  "\<exists>tx sg op.
     SendAndConfirmTransaction tx sg op
       \<in> set (issued sample_ready (snd (testContract sample_services sample_ready))) \<and>
     (\<exists>mint tk.
        instructions tx ! 3 =
          Token_createMintToInstruction (TOKEN_PROGRAM_ID sample_services) mint tk
            (publicKey sample_payer) [] 1)"
proof -
  from sample_run obtain tx sg op where
    m: "SendAndConfirmTransaction tx sg op
       \<in> set (issued sample_ready (snd (testContract sample_services sample_ready)))"
    by blast
  from mint_to_one_unit [OF m] show ?thesis using m by (auto simp: sample_process_simps)
qed

text \<open>
  Claim C7. In every submission of \<open>testContract\<close>, the second instruction initialises
  the account that the first instruction creates as a mint with 0 decimals, the payer's key
  as mint authority and no freeze authority.
\<close>

theorem initialize_mint_settings:
  assumes "SendAndConfirmTransaction tx sg op \<in> set (issued st (snd (testContract S st)))"
  shows "\<exists>p mint r.
     payer st = Some p \<and>
     instructions tx ! 0 =
       SystemProgram_createAccount (publicKey p) mint r MintLayout_span (TOKEN_PROGRAM_ID S) \<and>
     instructions tx ! 1 =
       Token_createInitMintInstruction (TOKEN_PROGRAM_ID S) mint 0 (publicKey p) None"
proof -
  from testContract_sends [OF assms] obtain a p pid mintRent where
    p: "payer st = Some p" and i: "instructions tx = recipe S p a pid mintRent"
    by blast
  show ?thesis
  proof (intro exI conjI)
    show "payer st = Some p" by (rule p)
    show "instructions tx ! 0 =
       SystemProgram_createAccount (publicKey p) (publicKey (mint_kp a)) mintRent MintLayout_span
         (TOKEN_PROGRAM_ID S)"
      by (simp add: i recipe_def)
    show "instructions tx ! 1 =
       Token_createInitMintInstruction (TOKEN_PROGRAM_ID S) (publicKey (mint_kp a)) 0
         (publicKey p) None"
      by (simp add: i recipe_def)
  qed
qed

theorem initialize_mint_settings_witness:
  "\<exists>tx sg op.
     SendAndConfirmTransaction tx sg op
       \<in> set (issued sample_ready (snd (testContract sample_services sample_ready))) \<and>
     (\<exists>mint.
        instructions tx ! 1 =
          Token_createInitMintInstruction (TOKEN_PROGRAM_ID sample_services) mint 0
            (publicKey sample_payer) None)"
proof -
  from sample_run obtain tx sg op where
    m: "SendAndConfirmTransaction tx sg op
       \<in> set (issued sample_ready (snd (testContract sample_services sample_ready)))"
    by blast
  from initialize_mint_settings [OF m] show ?thesis using m by (auto simp: sample_process_simps)
qed

text \<open>
  Claim C8. Every submission of \<open>testContract\<close> hands the node's
  \<^verbatim>\<open>sendAndConfirmTransaction\<close> the assembled transaction, exactly two signing key pairs
  (the payer and the freshly generated key pair of the new mint, whose key instruction 0
  creates) and the options \<^verbatim>\<open>{skipPreflight: true}\<close>: the run's result and its final world
  are those this very call gives, and the call is the last of the three requests of the run.
\<close>

theorem submission_signers_and_options:
  assumes "SendAndConfirmTransaction tx sg op \<in> set (issued st (snd (testContract S st)))"
  shows "\<exists>p kp w' r c.
     payer st = Some p \<and> Keypair_generate S (world st) = (kp, w') \<and>
     connection st = Some c \<and>
     instructions tx ! 0 =
       SystemProgram_createAccount (publicKey p) (publicKey kp) r MintLayout_span
         (TOKEN_PROGRAM_ID S) \<and>
     sg = [p, kp] \<and>
     op = \<lparr>skipPreflight = Some True, commitment = None, preflightCommitment = None\<rparr> \<and>
     fst (testContract S st) =
       (case fst (sendAndConfirmTransaction S c w' tx [p, kp]
                    \<lparr>skipPreflight = Some True, commitment = None, preflightCommitment = None\<rparr>) of
          Inl e \<Rightarrow> Inl e | Inr signature \<Rightarrow> Inr ()) \<and>
     world (snd (testContract S st)) =
       snd (sendAndConfirmTransaction S c w' tx [p, kp]
              \<lparr>skipPreflight = Some True, commitment = None, preflightCommitment = None\<rparr>) \<and>
     issued st (snd (testContract S st)) =
       [GetMinimumBalanceForRentExemption MintLayout_span,
        GetMinimumBalanceForRentExemption AccountLayout_span,
        SendAndConfirmTransaction tx [p, kp]
          \<lparr>skipPreflight = Some True, commitment = None, preflightCommitment = None\<rparr>]"
proof -
  from testContract_result [OF assms] obtain a p pid c mintRent w' where
    g: "Keypair_generate S (world st) = (mint_kp a, w')" and p: "payer st = Some p" and
    c: "connection st = Some c" and
    tx: "tx = \<lparr>instructions = recipe S p a pid mintRent, recentBlockhash = None\<rparr>" and
    sg: "sg = [p, mint_kp a]" and op: "op = send_options" and
    r: "fst (testContract S st) =
       (case fst (sendAndConfirmTransaction S c w' tx sg op) of
          Inl e \<Rightarrow> Inl e | Inr signature \<Rightarrow> Inr ())" and
    w: "world (snd (testContract S st)) = snd (sendAndConfirmTransaction S c w' tx sg op)" and
    i: "issued st (snd (testContract S st)) =
       [GetMinimumBalanceForRentExemption MintLayout_span,
        GetMinimumBalanceForRentExemption AccountLayout_span,
        SendAndConfirmTransaction tx sg op]"
    by blast
  have o: "op = \<lparr>skipPreflight = Some True, commitment = None, preflightCommitment = None\<rparr>"
    by (simp add: op send_options_def)
  show ?thesis
  proof (intro exI conjI)
    show "payer st = Some p" by (rule p)
    show "Keypair_generate S (world st) = (mint_kp a, w')" by (rule g)
    show "connection st = Some c" by (rule c)
    show "instructions tx ! 0 =
       SystemProgram_createAccount (publicKey p) (publicKey (mint_kp a)) mintRent MintLayout_span
         (TOKEN_PROGRAM_ID S)"
      by (simp add: tx recipe_def)
    show "sg = [p, mint_kp a]" by (rule sg)
    show "op = \<lparr>skipPreflight = Some True, commitment = None, preflightCommitment = None\<rparr>"
      by (rule o)
    show "fst (testContract S st) =
       (case fst (sendAndConfirmTransaction S c w' tx [p, mint_kp a]
                    \<lparr>skipPreflight = Some True, commitment = None, preflightCommitment = None\<rparr>) of
          Inl e \<Rightarrow> Inl e | Inr signature \<Rightarrow> Inr ())"
      using r by (simp only: sg o)
    show "world (snd (testContract S st)) =
       snd (sendAndConfirmTransaction S c w' tx [p, mint_kp a]
              \<lparr>skipPreflight = Some True, commitment = None, preflightCommitment = None\<rparr>)"
      using w by (simp only: sg o)
    show "issued st (snd (testContract S st)) =
       [GetMinimumBalanceForRentExemption MintLayout_span,
        GetMinimumBalanceForRentExemption AccountLayout_span,
        SendAndConfirmTransaction tx [p, mint_kp a]
          \<lparr>skipPreflight = Some True, commitment = None, preflightCommitment = None\<rparr>]"
      using i by (simp only: sg o)
  qed
qed

theorem submission_signers_and_options_witness:
  "\<exists>tx sg op.
     SendAndConfirmTransaction tx sg op
       \<in> set (issued sample_ready (snd (testContract sample_services sample_ready))) \<and>
     sg = [sample_payer, sample_mint] \<and> skipPreflight op = Some True \<and>
     fst (testContract sample_services sample_ready) = Inr () \<and>
     world (snd (testContract sample_services sample_ready)) =
       snd (sendAndConfirmTransaction sample_services sample_connection (world sample_ready)
              tx sg op)"
proof -
  from sample_run obtain tx sg op where
    m: "SendAndConfirmTransaction tx sg op
       \<in> set (issued sample_ready (snd (testContract sample_services sample_ready)))"
    by blast
  from submission_signers_and_options [OF m]
  have "sg = [sample_payer, sample_mint] \<and> skipPreflight op = Some True \<and>
     fst (testContract sample_services sample_ready) = Inr () \<and>
     world (snd (testContract sample_services sample_ready)) =
       snd (sendAndConfirmTransaction sample_services sample_connection (world sample_ready)
              tx sg op)"
    by (auto simp: sample_process_simps sample_services_simps)
  with m show ?thesis by blast
qed

section \<open>Determinism of the derivation\<close>

lemma candidate_cong:
  assumes "sha256 S' = sha256 S" "pda_marker S' = pda_marker S"
  shows "candidate S' seeds owner n = candidate S seeds owner n"
  by (simp add: candidate_def assms)

lemma find_bump_cong:
  assumes "sha256 S' = sha256 S" "is_on_curve S' = is_on_curve S" "pda_marker S' = pda_marker S"
  shows "find_bump S' seeds owner n = find_bump S seeds owner n"
proof (induction n)
  case 0
  show ?case by (simp add: candidate_cong [OF assms(1) assms(3)] assms(2))
next
  case (Suc n)
  then show ?case by (simp add: candidate_cong [OF assms(1) assms(3)] assms(2))
qed

text \<open>
  Claim C9. The derivation is a function of the seeds and the owner alone: it gives the same
  (address, bump) pair, or the same failure, in any process state and under any services
  that share the hash, the curve test and the suffix, whatever the node, the key files and
  the random generator do; and it leaves the process state as it was. In particular two
  calls on the same seeds and owner return the same pair.
\<close>

theorem derivation_deterministic:
  assumes "sha256 S' = sha256 S" "is_on_curve S' = is_on_curve S" "pda_marker S' = pda_marker S"
  shows "findProgramAddress S' seeds owner = findProgramAddress S seeds owner \<and>
     fst (derived_key S' seeds owner st') = fst (derived_key S seeds owner st) \<and>
     snd (derived_key S seeds owner st) = st"
proof -
  have f: "findProgramAddress S' seeds owner = findProgramAddress S seeds owner"
    by (simp add: findProgramAddress_def find_bump_cong [OF assms])
  show ?thesis
    by (simp add: f derived_key_def split: sum.splits)
qed

theorem derivation_deterministic_witness:
  "sha256 offline_services = sha256 sample_services \<and>
   is_on_curve offline_services = is_on_curve sample_services \<and>
   pda_marker offline_services = pda_marker sample_services \<and>
   findProgramAddress offline_services [[1], [2]] (PublicKey [3])
     = findProgramAddress sample_services [[1], [2]] (PublicKey [3]) \<and>
   fst (derived_key offline_services [[1], [2]] (PublicKey [3]) offline_process)
     = fst (derived_key sample_services [[1], [2]] (PublicKey [3]) sample_ready) \<and>
   snd (derived_key sample_services [[1], [2]] (PublicKey [3]) sample_ready) = sample_ready"
proof -
  have h: "sha256 offline_services = sha256 sample_services"
    "is_on_curve offline_services = is_on_curve sample_services"
    "pda_marker offline_services = pda_marker sample_services"
    by (simp_all add: offline_services_def sample_services_def)
  from derivation_deterministic [OF h, of "[[1], [2]]" "PublicKey [3]" offline_process sample_ready]
  show ?thesis using h by simp
qed

section \<open>establishPayer, and conformance of the custom call\<close>

text \<open>
  Claim C10. When the payer is already loaded, \<open>establishPayer\<close> sends at most one
  request, the balance query for the payer, and never an airdrop request, whatever the
  balance is; the payer stays the same and the world, and with it the payer's balance, is
  left as it was.
\<close>

theorem establishPayer_repeat:
  assumes "payer st = Some kp"
  shows "world (snd (establishPayer S st)) = world st \<and>
     payer (snd (establishPayer S st)) = Some kp \<and>
     (issued st (snd (establishPayer S st)) = [] \<or>
      issued st (snd (establishPayer S st)) = [GetBalance (publicKey kp)]) \<and>
     (\<forall>k n. RequestAirdrop k n \<notin> set (issued st (snd (establishPayer S st)))) \<and>
     getBalance S c (world (snd (establishPayer S st))) (publicKey kp)
       = getBalance S c (world st) (publicKey kp)"
  using assms
  by (auto simp: establishPayer_def load_payer_def await_def query_def the_connection_def
        return_def issued_def
      split: option.splits sum.splits prod.splits)

theorem establishPayer_repeat_witness:
  "payer sample_ready = Some sample_payer \<and>
   world (snd (establishPayer sample_services sample_ready)) = world sample_ready \<and>
   issued sample_ready (snd (establishPayer sample_services sample_ready))
     = [GetBalance (publicKey sample_payer)] \<and>
   (\<forall>k n. RequestAirdrop k n
      \<notin> set (issued sample_ready (snd (establishPayer sample_services sample_ready))))"
proof -
  have h: "payer sample_ready = Some sample_payer" by (simp add: sample_process_simps)
  have i: "issued sample_ready (snd (establishPayer sample_services sample_ready))
     = [GetBalance (publicKey sample_payer)]"
    by (simp add: establishPayer_def load_payer_def await_def query_def the_connection_def
        return_def issued_def sample_process_simps sample_services_simps)
  from establishPayer_repeat [OF h, of sample_services sample_connection]
  show ?thesis using h i by simp
qed

text \<open>
  Claim C3, as amended. With no payer loaded yet, a fee requirement of 5000 (100 times the
  node's lamports per signature) and a payer balance of 0, \<open>establishPayer\<close> requests an
  airdrop of exactly 5000 to the payer, waits for its confirmation and reads the balance
  again. It then returns normally whatever that balance \<open>b\<close> is: it raises no error when
  the balance is still below the requirement.
\<close>

theorem establishPayer_airdrop:
  assumes "payer st = None" and "connection st = Some c"
    and "getRecentBlockhash S c (world st) = Inr (bh, lps)" and "lps * 100 = 5000"
    and "getPayer S (world st) = (Inr kp, w1)"
    and "getBalance S c w1 (publicKey kp) = Inr 0"
    and "requestAirdrop S c w1 (publicKey kp) 5000 = (Inr sig, w2)"
    and "confirmTransaction S c w2 sig = (Inr (), w3)"
    and "getBalance S c w3 (publicKey kp) = Inr b"
  shows "establishPayer S st =
     (Inr (),
      st\<lparr>world := w3,
         calls := calls st @
           [GetRecentBlockhash, GetBalance (publicKey kp), RequestAirdrop (publicKey kp) 5000,
            ConfirmTransaction sig, GetBalance (publicKey kp)],
         payer := Some kp\<rparr>)"
  using assms
  by (simp add: establishPayer_def load_payer_def await_def query_def request_def
        the_connection_def local_effect_def return_def)

theorem establishPayer_airdrop_witness:
  "establishPayer sample_services (sample_start True) =
     (Inr (),
      (sample_start True)
        \<lparr>world := \<lparr>sw_balance = 5000, sw_pending = 0, sw_faucet_pays = True\<rparr>,
         calls := calls (sample_start True) @
           [GetRecentBlockhash, GetBalance (publicKey sample_payer),
            RequestAirdrop (publicKey sample_payer) 5000,
            ConfirmTransaction ''airdrop'', GetBalance (publicKey sample_payer)],
         payer := Some sample_payer\<rparr>)"
  using establishPayer_airdrop [of "sample_start True" sample_connection sample_services
      "''blockhash''" 50 sample_payer "\<lparr>sw_balance = 0, sw_pending = 0, sw_faucet_pays = True\<rparr>"
      "''airdrop''" "\<lparr>sw_balance = 0, sw_pending = 5000, sw_faucet_pays = True\<rparr>"
      "\<lparr>sw_balance = 5000, sw_pending = 0, sw_faucet_pays = True\<rparr>" 5000]
  by (simp add: sample_process_simps sample_services_simps)

text \<open>
  The claim as stated asks for an error when the balance after the airdrop is still below
  the requirement. In the sample world whose faucet lets the airdrop lapse the balance is 0
  before and after, the requirement is 5000, and \<open>establishPayer\<close> returns normally.
\<close>

theorem establishPayer_no_InsufficientFunds:
  "getBalance sample_services sample_connection (world (sample_start False))
     (publicKey sample_payer) = Inr 0 \<and>
   fst (establishPayer sample_services (sample_start False)) = Inr () \<and>
   calls (snd (establishPayer sample_services (sample_start False))) =
     [GetRecentBlockhash, GetBalance (publicKey sample_payer),
      RequestAirdrop (publicKey sample_payer) 5000,
      ConfirmTransaction ''airdrop'', GetBalance (publicKey sample_payer)] \<and>
   getBalance sample_services sample_connection
     (world (snd (establishPayer sample_services (sample_start False))))
     (publicKey sample_payer) = Inr 0"
  by (simp add: establishPayer_def load_payer_def await_def query_def request_def
        the_connection_def local_effect_def return_def sample_process_simps sample_services_simps)



end
